theory Spec2Isabelle
  imports Main "HOL-Library.Word"
begin

unbundle bit_operations_syntax

section \<open>Direct DMA mapping (kernel/dma/direct.c)\<close>

text \<open>
  A shallow embedding of the DMA operations that map physical memory directly, without
  an IOMMU. Addresses and sizes (\<open>dma_addr_t\<close>, \<open>phys_addr_t\<close>, \<open>u64\<close>, \<open>size_t\<close>,
  \<open>unsigned long\<close>) are 64-bit words, so \<open>+\<close> and \<open>-\<close> wrap as they do in C;
  \<open>gfp_t\<close> is a 32-bit word. A \<open>struct page *\<close> is a page handle (a natural number);
  \<open>NULL\<close> is \<open>None\<close>.

  Everything the file calls but does not define (the page allocator, the contiguous
  pool, the bounce pool, the architecture's cache maintenance, the address translation
  of the bus) is a field of the record \<open>env\<close>. A call with an effect is appended to
  the history of calls, a \<open>call list\<close> in the order of execution; a collaborator whose
  answer depends on its own state receives the history so far, so it may answer
  differently each time it is called.
\<close>

subsection \<open>Types\<close>

type_synonym u64 = "64 word"
type_synonym gfp_t = "32 word"
type_synonym page = nat

datatype dma_data_direction = DMA_BIDIRECTIONAL | DMA_TO_DEVICE | DMA_FROM_DEVICE | DMA_NONE

datatype dma_sync_target = SYNC_FOR_CPU | SYNC_FOR_DEVICE

datatype swiotlb_force_t = SWIOTLB_NORMAL | SWIOTLB_FORCE | SWIOTLB_NO_FORCE

text \<open>The fields of \<open>struct device\<close> that the file reads; \<open>dma_mask\<close> is a pointer.\<close>

record device =
  dma_mask :: "u64 option"
  coherent_dma_mask :: u64
  bus_dma_limit :: u64

text \<open>
  One entry of a scatterlist. The field \<open>length\<close> of the source is \<open>length_sg\<close>
  here; \<open>sg_dma_len(sg)\<close> is the field \<open>dma_length\<close>.
\<close>

record scatterlist =
  sg_page :: page
  offset :: u64
  length_sg :: u64
  dma_address :: u64
  dma_length :: u64

record vm_area_struct =
  vm_start :: u64
  vm_end :: u64
  vm_pgoff :: u64
  vm_page_prot :: u64

text \<open>The address the caller gets back: a kernel address, or the page as a cookie.\<close>

datatype cpu_addr = Vaddr u64 | Page_cookie page

text \<open>The calls with an effect, with their arguments (the device is left out).\<close>

datatype call =
    Dma_alloc_contiguous u64 gfp_t
  | Dma_free_contiguous page u64
  | Alloc_pages_node int gfp_t nat
  | Dma_alloc_from_pool u64 gfp_t
  | Arch_dma_prep_coherent page u64
  | Dma_common_contiguous_remap page u64
  | Set_memory_decrypted u64 nat
  | Memset u64 nat u64
  | Dev_info
  | Arch_sync_dma_for_device u64 u64 dma_data_direction
  | Arch_sync_dma_for_cpu u64 u64 dma_data_direction
  | Arch_sync_dma_for_cpu_all
  | Swiotlb_tbl_sync_single u64 u64 dma_data_direction dma_sync_target
  | Swiotlb_tbl_unmap_single u64 u64 u64 dma_data_direction u64
  | Swiotlb_map u64 u64 u64 dma_data_direction u64
  | Dev_err_once_no_dma_mask
  | Dev_err_once_overflow u64 u64 u64 u64
  | Warn_on_once
  | Dma_mmap_from_dev_coherent u64 u64
  | Remap_pfn_range u64 u64 u64 u64

subsection \<open>Constants of the kernel headers\<close>

text \<open>
  Modelled from the spec: the flag constants of \<open>include/linux/gfp.h\<close> and
  \<open>include/linux/dma-mapping.h\<close>, the error value \<open>DMA_MAPPING_ERROR\<close> and \<open>ENXIO\<close> are
  not among the sources. The spec names what they stand for (the narrowest and the 32-bit
  zone class, zeroing by the allocator, the attributes for no kernel mapping and for
  skipping the CPU synchronisation, the invalid-mapping value, the error of a user range
  out of bounds) and not their values; they have the values of the kernel headers here.
  The proofs use only that each flag is not zero and that \<open>GFP_DMA\<close> and \<open>GFP_DMA32\<close>
  are different bits.
\<close>

definition GFP_DMA :: gfp_t where "GFP_DMA = 0x01"
definition GFP_DMA32 :: gfp_t where "GFP_DMA32 = 0x04"
definition GFP_ZERO :: gfp_t where "GFP_ZERO = 0x100"
definition GFP_NOWARN :: gfp_t where "GFP_NOWARN = 0x2000"

definition DMA_ATTR_NO_KERNEL_MAPPING :: u64 where "DMA_ATTR_NO_KERNEL_MAPPING = 0x10"
definition DMA_ATTR_SKIP_CPU_SYNC :: u64 where "DMA_ATTR_SKIP_CPU_SYNC = 0x20"
definition DMA_ATTR_NO_WARN :: u64 where "DMA_ATTR_NO_WARN = 0x100"

definition DMA_MAPPING_ERROR :: u64 where "DMA_MAPPING_ERROR = NOT 0"

definition ENXIO :: int where "ENXIO = 6"

text \<open>
  Modelled from the spec: the macro \<open>DMA_BIT_MASK\<close> of \<open>include/linux/dma-mapping.h\<close> is
  not among the sources. The spec's tiers are bounded by the largest address of 24 and
  of 32 bits; \<open>DMA_BIT_MASK(n)\<close> is the largest address of \<open>n\<close> bits, all ones for 64.
\<close>

definition DMA_BIT_MASK :: "nat \<Rightarrow> u64" where
  "DMA_BIT_MASK n = (if n = 64 then NOT 0 else push_bit n 1 - 1)"

text \<open>
  Modelled from the spec: the macro \<open>min_not_zero\<close> of \<open>include/linux/kernel.h\<close> is not
  among the sources. The spec reads it as the minimum of a mask and an optional bus
  limit, an absent limit being stored as 0. The macro is the minimum of those of its two
  arguments that are not zero, whichever of the two that is.
\<close>

definition min_not_zero :: "u64 \<Rightarrow> u64 \<Rightarrow> u64" where
  "min_not_zero x y = (if x = 0 then y else if y = 0 then x else min x y)"

subsection \<open>The environment\<close>

text \<open>
  The configuration (\<open>IS_ENABLED(CONFIG_...)\<close>), the global variables \<open>zone_dma_bits\<close> and
  \<open>swiotlb_force\<close>, the helpers without effect, and the collaborators with a state of their
  own. \<open>uu_phys_to_dma\<close> and \<open>uu_dma_to_phys\<close> are \<open>__phys_to_dma\<close> and
  \<open>__dma_to_phys\<close> (a name cannot start with an underscore here). \<open>swiotlb_map\<close>
  returns its result with the new values of \<open>*phys\<close> and \<open>*dma_addr\<close>;
  \<open>dma_mmap_from_dev_coherent\<close> returns the value of \<open>*ret\<close> when it handles the request.
\<close>

record env =
  CONFIG_ZONE_DMA :: bool
  CONFIG_ZONE_DMA32 :: bool
  CONFIG_DMA_DIRECT_REMAP :: bool
  CONFIG_DMA_REMAP :: bool
  CONFIG_ARCH_HAS_UNCACHED_SEGMENT :: bool
  CONFIG_MMU :: bool
  zone_dma_bits :: nat
  swiotlb_force :: swiotlb_force_t
  PAGE_SHIFT :: nat
  PAGE_ALIGN :: "u64 \<Rightarrow> u64"
  get_order :: "u64 \<Rightarrow> nat"
  PHYS_PFN :: "u64 \<Rightarrow> u64"
  vma_pages :: "vm_area_struct \<Rightarrow> u64"
  dma_pgprot :: "device \<Rightarrow> u64 \<Rightarrow> u64 \<Rightarrow> u64"
  dev_to_node :: "device \<Rightarrow> int"
  force_dma_unencrypted :: "device \<Rightarrow> bool"
  dev_is_dma_coherent :: "device \<Rightarrow> bool"
  phys_to_dma :: "device \<Rightarrow> u64 \<Rightarrow> u64"
  uu_phys_to_dma :: "device \<Rightarrow> u64 \<Rightarrow> u64"
  dma_to_phys :: "device \<Rightarrow> u64 \<Rightarrow> u64"
  uu_dma_to_phys :: "device \<Rightarrow> u64 \<Rightarrow> u64"
  dma_capable :: "device \<Rightarrow> u64 \<Rightarrow> u64 \<Rightarrow> bool \<Rightarrow> bool"
  is_swiotlb_buffer :: "u64 \<Rightarrow> bool"
  page_to_phys :: "page \<Rightarrow> u64"
  PageHighMem :: "page \<Rightarrow> bool"
  page_address :: "page \<Rightarrow> u64"
  uncached_kernel_address :: "u64 \<Rightarrow> u64"
  dma_alloc_need_uncached :: "device \<Rightarrow> u64 \<Rightarrow> bool"
  gfpflags_allow_blocking :: "gfp_t \<Rightarrow> bool"
  dma_alloc_contiguous :: "call list \<Rightarrow> device \<Rightarrow> u64 \<Rightarrow> gfp_t \<Rightarrow> page option"
  alloc_pages_node :: "call list \<Rightarrow> int \<Rightarrow> gfp_t \<Rightarrow> nat \<Rightarrow> page option"
  dma_alloc_from_pool :: "call list \<Rightarrow> u64 \<Rightarrow> gfp_t \<Rightarrow> (u64 \<times> page) option"
  dma_common_contiguous_remap :: "call list \<Rightarrow> page \<Rightarrow> u64 \<Rightarrow> u64 option"
  swiotlb_map ::
    "call list \<Rightarrow> device \<Rightarrow> u64 \<Rightarrow> u64 \<Rightarrow> u64 \<Rightarrow> dma_data_direction \<Rightarrow> u64 \<Rightarrow> bool \<times> u64 \<times> u64"
  dma_mmap_from_dev_coherent ::
    "call list \<Rightarrow> device \<Rightarrow> vm_area_struct \<Rightarrow> u64 \<Rightarrow> u64 \<Rightarrow> int option"
  remap_pfn_range ::
    "call list \<Rightarrow> vm_area_struct \<Rightarrow> u64 \<Rightarrow> u64 \<Rightarrow> u64 \<Rightarrow> u64 \<Rightarrow> int"

subsection \<open>Address translation and reachability\<close>

definition phys_to_dma_direct :: "env \<Rightarrow> device \<Rightarrow> u64 \<Rightarrow> u64" where
  "phys_to_dma_direct e dev phys =
     (if force_dma_unencrypted e dev then uu_phys_to_dma e dev phys
      else phys_to_dma e dev phys)"

text \<open>
  \<open>__dma_direct_optimal_gfp_mask\<close>: the zone flag, paired with the value written to
  \<open>*phys_limit\<close>.
\<close>

definition uu_dma_direct_optimal_gfp_mask :: "env \<Rightarrow> device \<Rightarrow> u64 \<Rightarrow> gfp_t \<times> u64" where
  "uu_dma_direct_optimal_gfp_mask e dev dmask =
     (let dma_limit = min_not_zero dmask (bus_dma_limit dev);
          phys_limit = (if force_dma_unencrypted e dev then uu_dma_to_phys e dev dma_limit
                        else dma_to_phys e dev dma_limit)
      in if phys_limit \<le> DMA_BIT_MASK (zone_dma_bits e) then (GFP_DMA, phys_limit)
         else if phys_limit \<le> DMA_BIT_MASK 32 then (GFP_DMA32, phys_limit)
         else (0, phys_limit))"

definition dma_coherent_ok :: "env \<Rightarrow> device \<Rightarrow> u64 \<Rightarrow> u64 \<Rightarrow> bool" where
  "dma_coherent_ok e dev phys sz =
     (phys_to_dma_direct e dev phys + sz - 1
        \<le> min_not_zero (coherent_dma_mask dev) (bus_dma_limit dev))"

subsection \<open>Coherent allocation: the page allocator and its zones\<close>

text \<open>
  The zone a mask asks the allocator for, as a rank: 0 for \<open>ZONE_DMA\<close> (the narrowest),
  1 for \<open>ZONE_DMA32\<close>, 2 when neither zone flag is set (any memory). \<open>GFP_DMA\<close> wins
  where both flags are set.
\<close>

definition zone_rank :: "gfp_t \<Rightarrow> nat" where
  "zone_rank flags = (if flags AND GFP_DMA \<noteq> 0 then 0 else if flags AND GFP_DMA32 \<noteq> 0 then 1 else 2)"

text \<open>
  The label \<open>again\<close> of \<open>__dma_direct_alloc_pages\<close> and the code below it: \<open>page\<close> is the
  page at hand when the label is reached, \<open>flags\<close> the current \<open>gfp\<close>. Each \<open>goto again\<close>
  is a recursive call.
\<close>

function again ::
  "env \<Rightarrow> device \<Rightarrow> u64 \<Rightarrow> u64 \<Rightarrow> int \<Rightarrow> u64 \<Rightarrow> gfp_t \<Rightarrow> page option \<Rightarrow> call list
     \<Rightarrow> page option \<times> call list" where
  "again e dev sz alloc_size node phys_limit flags page h =
     (let order = get_order e alloc_size;
          page1 = (case page of None \<Rightarrow> alloc_pages_node e h node flags order | Some p \<Rightarrow> Some p);
          h1 = (case page of None \<Rightarrow> h @ [Alloc_pages_node node flags order] | Some p \<Rightarrow> h)
      in case page1 of
           None \<Rightarrow> (None, h1)
         | Some p \<Rightarrow>
             if \<not> dma_coherent_ok e dev (page_to_phys e p) sz then
               (let h2 = h1 @ [Dma_free_contiguous p sz] in
                if CONFIG_ZONE_DMA32 e \<and> phys_limit < DMA_BIT_MASK 64 \<and>
                   flags AND (GFP_DMA32 OR GFP_DMA) = 0
                then again e dev sz alloc_size node phys_limit (flags OR GFP_DMA32) None h2
                else if CONFIG_ZONE_DMA e \<and> flags AND GFP_DMA = 0
                then again e dev sz alloc_size node phys_limit
                       ((flags AND NOT GFP_DMA32) OR GFP_DMA) None h2
                else (None, h2))
             else (Some p, h1))"
  by pat_completeness auto

text \<open>Each retry sets a zone flag that was tested clear, so the rank goes down.\<close>

lemma and_or_zero: "(x :: 'a::len word) AND (a OR b) = 0 \<Longrightarrow> x AND a = 0 \<and> x AND b = 0"
  by (simp add: bit.conj_disj_distrib or_eq_0_iff)

lemma or_dma32_and_dma32: "(flags OR GFP_DMA32) AND GFP_DMA32 \<noteq> 0"
  by (simp add: GFP_DMA32_def)

lemma or_dma32_and_dma: "(flags OR GFP_DMA32) AND GFP_DMA = flags AND GFP_DMA"
  by (simp add: GFP_DMA32_def GFP_DMA_def word_ao_dist)

lemma or_dma_and_dma: "((flags AND NOT GFP_DMA32) OR GFP_DMA) AND GFP_DMA \<noteq> 0"
  by (simp add: GFP_DMA_def)

lemma zone_rank_dma32:
  "flags AND (GFP_DMA32 OR GFP_DMA) = 0 \<Longrightarrow> zone_rank (flags OR GFP_DMA32) < zone_rank flags"
  using and_or_zero [of flags GFP_DMA32 GFP_DMA]
  by (simp add: zone_rank_def or_dma32_and_dma) (simp add: GFP_DMA32_def)

lemma zone_rank_dma:
  "flags AND GFP_DMA = 0 \<Longrightarrow> zone_rank ((flags AND NOT GFP_DMA32) OR GFP_DMA) < zone_rank flags"
  by (simp add: zone_rank_def) (simp add: GFP_DMA_def)

termination again
  by (relation "measure (\<lambda>(e, dev, sz, alloc_size, node, phys_limit, flags, page, h). zone_rank flags)")
     (simp_all only: wf_measure in_measure prod.case zone_rank_dma32 zone_rank_dma)

declare again.simps [simp del]

fun is_alloc_pages_node :: "call \<Rightarrow> bool" where
  "is_alloc_pages_node (Alloc_pages_node node flags order) = True"
| "is_alloc_pages_node c = False"

definition alloc_pages_node_calls :: "call list \<Rightarrow> nat" where
  "alloc_pages_node_calls h = length (filter is_alloc_pages_node h)"

lemma again_None:
  "again e dev sz alloc_size node phys_limit flags None h =
     (case alloc_pages_node e h node flags (get_order e alloc_size) of
        None \<Rightarrow> (None, h @ [Alloc_pages_node node flags (get_order e alloc_size)])
      | Some p \<Rightarrow> again e dev sz alloc_size node phys_limit flags (Some p)
                    (h @ [Alloc_pages_node node flags (get_order e alloc_size)]))"
  by (simp add: again.simps [of _ _ _ _ _ _ _ None] again.simps [of _ _ _ _ _ _ _ "Some p" for p]
        Let_def split: option.splits)

lemma again_Some:
  "again e dev sz alloc_size node phys_limit flags (Some p) h =
     (if dma_coherent_ok e dev (page_to_phys e p) sz then (Some p, h)
      else if CONFIG_ZONE_DMA32 e \<and> phys_limit < DMA_BIT_MASK 64 \<and>
              flags AND (GFP_DMA32 OR GFP_DMA) = 0
      then again e dev sz alloc_size node phys_limit (flags OR GFP_DMA32) None
             (h @ [Dma_free_contiguous p sz])
      else if CONFIG_ZONE_DMA e \<and> flags AND GFP_DMA = 0
      then again e dev sz alloc_size node phys_limit ((flags AND NOT GFP_DMA32) OR GFP_DMA) None
             (h @ [Dma_free_contiguous p sz])
      else (None, h @ [Dma_free_contiguous p sz]))"
  by (simp add: again.simps [of _ _ _ _ _ _ _ "Some p"] Let_def)

lemma again_calls:
  "alloc_pages_node_calls (snd (again e dev sz alloc_size node phys_limit flags page h))
     \<le> alloc_pages_node_calls h + (case page of None \<Rightarrow> zone_rank flags + 1 | Some p \<Rightarrow> zone_rank flags)"
proof (induction "zone_rank flags" arbitrary: flags page h rule: less_induct)
  case less
  have some: "alloc_pages_node_calls (snd (again e dev sz alloc_size node phys_limit flags (Some p) k))
      \<le> alloc_pages_node_calls k + zone_rank flags" for p k
  proof -
    let ?k = "k @ [Dma_free_contiguous p sz]"
    have k: "alloc_pages_node_calls ?k = alloc_pages_node_calls k"
      by (simp add: alloc_pages_node_calls_def)
    have r32: "alloc_pages_node_calls
        (snd (again e dev sz alloc_size node phys_limit (flags OR GFP_DMA32) None ?k))
        \<le> alloc_pages_node_calls k + zone_rank flags"
      if "flags AND (GFP_DMA32 OR GFP_DMA) = 0"
      using less [OF zone_rank_dma32 [OF that], of None ?k] zone_rank_dma32 [OF that] k
      by simp
    have rdma: "alloc_pages_node_calls
        (snd (again e dev sz alloc_size node phys_limit ((flags AND NOT GFP_DMA32) OR GFP_DMA) None ?k))
        \<le> alloc_pages_node_calls k + zone_rank flags"
      if "flags AND GFP_DMA = 0"
      using less [OF zone_rank_dma [OF that], of None ?k] zone_rank_dma [OF that] k
      by simp
    show ?thesis
      by (simp add: again_Some r32 rdma k)
  qed
  show ?case
  proof (cases page)
    case None
    show ?thesis
    proof (cases "alloc_pages_node e h node flags (get_order e alloc_size)")
      case None
      with \<open>page = None\<close> show ?thesis
        by (simp add: again_None alloc_pages_node_calls_def)
    next
      case (Some p)
      have "alloc_pages_node_calls (h @ [Alloc_pages_node node flags (get_order e alloc_size)])
          = alloc_pages_node_calls h + 1"
        by (simp add: alloc_pages_node_calls_def)
      with some [of p "h @ [Alloc_pages_node node flags (get_order e alloc_size)]"] Some \<open>page = None\<close>
      show ?thesis
        by (simp add: again_None)
    qed
  next
    case (Some p)
    with some [of p h] show ?thesis by simp
  qed
qed

text \<open>\<open>__dma_direct_alloc_pages\<close>: the page or \<open>NULL\<close>, and the history.\<close>

definition uu_dma_direct_alloc_pages ::
  "env \<Rightarrow> device \<Rightarrow> u64 \<Rightarrow> gfp_t \<Rightarrow> u64 \<Rightarrow> call list \<Rightarrow> page option \<times> call list" where
  "uu_dma_direct_alloc_pages e dev sz flags attrs h =
     (let alloc_size = PAGE_ALIGN e sz;
          node = dev_to_node e dev;
          flags = (if attrs AND DMA_ATTR_NO_WARN \<noteq> 0 then flags OR GFP_NOWARN else flags);
          flags = flags AND NOT GFP_ZERO;
          (zone, phys_limit) = uu_dma_direct_optimal_gfp_mask e dev (coherent_dma_mask dev);
          flags = flags OR zone;
          page = dma_alloc_contiguous e h dev alloc_size flags;
          h = h @ [Dma_alloc_contiguous alloc_size flags]
      in case page of
           None \<Rightarrow> again e dev sz alloc_size node phys_limit flags None h
         | Some p \<Rightarrow>
             if \<not> dma_coherent_ok e dev (page_to_phys e p) sz
             then again e dev sz alloc_size node phys_limit flags None
                    (h @ [Dma_free_contiguous p alloc_size])
             else again e dev sz alloc_size node phys_limit flags (Some p) h)"

lemma zone_rank_le2: "zone_rank flags \<le> 2"
  by (simp add: zone_rank_def)

lemma again_calls_fresh:
  "alloc_pages_node_calls k = 0 \<Longrightarrow>
   alloc_pages_node_calls (snd (again e dev sz a n l f page k)) \<le> 3"
  using again_calls [of e dev sz a n l f page k] zone_rank_le2 [of f]
  by (simp split: option.splits)

text \<open>
  C10. The retry loop of \<open>__dma_direct_alloc_pages\<close> ends on every input (\<open>again\<close> is a
  total function: each \<open>goto again\<close> lowers \<open>zone_rank\<close>, a flag being set that the test
  before the jump found clear), and one call invokes \<open>alloc_pages_node\<close> at most three
  times before it returns a page or \<open>NULL\<close>.
\<close>

theorem alloc_pages_node_at_most_three:
  "alloc_pages_node_calls (snd (uu_dma_direct_alloc_pages e dev sz flags attrs [])) \<le> 3"
proof -
  obtain zone phys_limit where
    z: "uu_dma_direct_optimal_gfp_mask e dev (coherent_dma_mask dev) = (zone, phys_limit)"
    by (cases "uu_dma_direct_optimal_gfp_mask e dev (coherent_dma_mask dev)")
  have c1: "alloc_pages_node_calls [Dma_alloc_contiguous a f] = 0" for a f
    by (simp add: alloc_pages_node_calls_def)
  have c2: "alloc_pages_node_calls [Dma_alloc_contiguous a f, Dma_free_contiguous p b] = 0"
    for a f p b
    by (simp add: alloc_pages_node_calls_def)
  show ?thesis
    by (simp add: uu_dma_direct_alloc_pages_def Let_def z again_calls_fresh c1 c2
          split: option.splits)
qed


subsection \<open>An example platform\<close>

text \<open>
  A platform with identity address translation, 4 KiB pages, both DMA zones, a bounce
  pool at 128 MiB and a page allocator that hands out one fixed page per zone. The
  closed examples below run the code on it.
\<close>

definition example_env :: env where
  "example_env = \<lparr>
     CONFIG_ZONE_DMA = True, CONFIG_ZONE_DMA32 = True, CONFIG_DMA_DIRECT_REMAP = False,
     CONFIG_DMA_REMAP = False, CONFIG_ARCH_HAS_UNCACHED_SEGMENT = False, CONFIG_MMU = True,
     zone_dma_bits = 24, swiotlb_force = SWIOTLB_NORMAL, PAGE_SHIFT = 12,
     PAGE_ALIGN = (\<lambda>x. (x + 0xFFF) AND NOT 0xFFF),
     get_order = (\<lambda>x. 0),
     PHYS_PFN = drop_bit 12,
     vma_pages = (\<lambda>vma. drop_bit 12 (vm_end vma - vm_start vma)),
     dma_pgprot = (\<lambda>dev prot attrs. prot),
     dev_to_node = (\<lambda>dev. 0),
     force_dma_unencrypted = (\<lambda>dev. False),
     dev_is_dma_coherent = (\<lambda>dev. False),
     phys_to_dma = (\<lambda>dev phys. phys),
     uu_phys_to_dma = (\<lambda>dev phys. phys),
     dma_to_phys = (\<lambda>dev addr. addr),
     uu_dma_to_phys = (\<lambda>dev addr. addr),
     dma_capable = (\<lambda>dev addr sz is_ram.
        case dma_mask dev of None \<Rightarrow> False
        | Some m \<Rightarrow> addr + sz - 1 \<le> min_not_zero m (bus_dma_limit dev)),
     is_swiotlb_buffer = (\<lambda>paddr. 0x8000000 \<le> paddr \<and> paddr < 0x8400000),
     page_to_phys = (\<lambda>p. push_bit 12 (of_nat p)),
     PageHighMem = (\<lambda>p. False),
     page_address = (\<lambda>p. 0xFFFF800000000000 + push_bit 12 (of_nat p)),
     uncached_kernel_address = (\<lambda>a. a),
     dma_alloc_need_uncached = (\<lambda>dev attrs. False),
     gfpflags_allow_blocking = (\<lambda>flags. True),
     dma_alloc_contiguous = (\<lambda>h dev sz flags. None),
     alloc_pages_node = (\<lambda>h node flags order.
        if flags AND GFP_DMA \<noteq> 0 then Some 0x800
        else if flags AND GFP_DMA32 \<noteq> 0 then Some 0x80000
        else Some 0x200000),
     dma_alloc_from_pool = (\<lambda>h sz flags. None),
     dma_common_contiguous_remap = (\<lambda>h p sz. None),
     swiotlb_map = (\<lambda>h dev phys addr sz dir attrs. (True, 0x8000000, 0x8000000)),
     dma_mmap_from_dev_coherent = (\<lambda>h dev vma cpu_addr sz. None),
     remap_pfn_range = (\<lambda>h vma addr pfn sz prot. 0) \<rparr>"

definition example_dev :: "u64 \<Rightarrow> u64 \<Rightarrow> device" where
  "example_dev m limit = \<lparr> dma_mask = Some m, coherent_dma_mask = m, bus_dma_limit = limit \<rparr>"

lemmas example_simps = example_env_def example_dev_def dma_coherent_ok_def min_not_zero_def
  phys_to_dma_direct_def DMA_BIT_MASK_def GFP_DMA_def GFP_DMA32_def GFP_ZERO_def GFP_NOWARN_def
  DMA_ATTR_NO_WARN_def uu_dma_direct_optimal_gfp_mask_def Let_def


subsection \<open>Reachability of a coherent allocation\<close>

text \<open>
  The spec's \<open>isReachable\<close> for a coherent allocation, in its own words: the last byte of
  the range is at most the minimum of the coherent mask and the bus limit, the limit being
  optional (absent when the field is 0).
\<close>

definition busLimit :: "device \<Rightarrow> u64 option" where
  "busLimit dev = (if bus_dma_limit dev = 0 then None else Some (bus_dma_limit dev))"

definition spec_isReachable :: "u64 \<Rightarrow> u64 \<Rightarrow> u64 \<Rightarrow> u64 option \<Rightarrow> bool" where
  "spec_isReachable busAddress sz applicableMask limit =
     (busAddress + sz - 1 \<le> (case limit of None \<Rightarrow> applicableMask | Some l \<Rightarrow> min applicableMask l))"


text \<open>
  C3, as amended. \<open>dma_coherent_ok\<close> compares the last bus address of the range (computed
  modulo \<open>2^64\<close>) with the minimum of the coherent mask and the optional bus limit as the
  spec says, for every device whose coherent mask is not zero; a coherent mask of zero is
  skipped as an absent bus limit is, and the bound is then the bus limit alone.
\<close>

theorem dma_coherent_ok_reachable:
  "dma_coherent_ok e dev phys sz =
     (if coherent_dma_mask dev = 0
      then phys_to_dma_direct e dev phys + sz - 1 \<le> bus_dma_limit dev
      else spec_isReachable (phys_to_dma_direct e dev phys) sz (coherent_dma_mask dev) (busLimit dev))"
  by (simp add: dma_coherent_ok_def min_not_zero_def spec_isReachable_def busLimit_def)

text \<open>
  C3, as stated, fails for a device whose coherent mask is 0 and whose bus limit is
  \<open>0x1000\<close>: the code accepts 16 bytes at bus address 0, the spec's minimum is 0.
\<close>

theorem dma_coherent_ok_zero_mask_counterexample:
  "dma_coherent_ok example_env (example_dev 0 0x1000) 0 16 \<and>
   \<not> spec_isReachable (phys_to_dma_direct example_env (example_dev 0 0x1000) 0) 16
         (coherent_dma_mask (example_dev 0 0x1000)) (busLimit (example_dev 0 0x1000))"
  by (simp add: dma_coherent_ok_def min_not_zero_def spec_isReachable_def busLimit_def
        phys_to_dma_direct_def example_env_def example_dev_def)




subsection \<open>The order of the zones in one allocation\<close>

text \<open>
  The zone ranks of the masks handed to the contiguous pool and to the page allocator,
  in the order of the calls; and the spec's selection of the first tier: tiers from the
  narrowest to the widest with their largest address, the first one that covers the limit.
\<close>

fun requested_flags :: "call \<Rightarrow> gfp_t list" where
  "requested_flags (Dma_alloc_contiguous sz flags) = [flags]"
| "requested_flags (Alloc_pages_node node flags order) = [flags]"
| "requested_flags c = []"

definition zone_requests :: "call list \<Rightarrow> nat list" where
  "zone_requests h = map zone_rank (concat (map requested_flags h))"

definition tiers :: "env \<Rightarrow> (nat \<times> u64) list" where
  "tiers e = [(0, DMA_BIT_MASK (zone_dma_bits e)), (1, DMA_BIT_MASK 32), (2, NOT 0)]"

definition narrowest_tier :: "env \<Rightarrow> u64 \<Rightarrow> nat option" where
  "narrowest_tier e phys_limit =
     map_option fst (find (\<lambda>(r, ceiling). phys_limit \<le> ceiling) (tiers e))"

text \<open>
  The retry of lines 118 to 128: the mask of the next narrower zone the configuration has,
  if there is one. \<open>first_request\<close> is the mask of the first allocator call (lines 99 to
  105). The calls \<open>k\<close> that follow the history \<open>h\<close> form the ladder of the page
  allocator from \<open>flags\<close>, with result \<open>r\<close>: a call with \<open>flags\<close>; if it gives no page
  the ladder ends and the result is \<open>NULL\<close>; if it gives a page the device can reach
  the ladder ends and that page is the result; otherwise the page is released, and the
  ladder goes on from the next narrower mask, or ends with \<open>NULL\<close> when there is none.
\<close>

definition narrower_retry :: "env \<Rightarrow> u64 \<Rightarrow> gfp_t \<Rightarrow> gfp_t option" where
  "narrower_retry e phys_limit flags =
     (if CONFIG_ZONE_DMA32 e \<and> phys_limit < DMA_BIT_MASK 64 \<and>
         flags AND (GFP_DMA32 OR GFP_DMA) = 0
      then Some (flags OR GFP_DMA32)
      else if CONFIG_ZONE_DMA e \<and> flags AND GFP_DMA = 0
      then Some ((flags AND NOT GFP_DMA32) OR GFP_DMA)
      else None)"

fun page_allocator_ladder ::
  "env \<Rightarrow> device \<Rightarrow> u64 \<Rightarrow> u64 \<Rightarrow> int \<Rightarrow> nat \<Rightarrow> gfp_t \<Rightarrow> call list \<Rightarrow> page option \<Rightarrow> call list
     \<Rightarrow> bool" where
  "page_allocator_ladder e dev sz phys_limit node order flags h r [] = False"
| "page_allocator_ladder e dev sz phys_limit node order flags h r (c # k) =
     (c = Alloc_pages_node node flags order \<and>
      (case alloc_pages_node e h node flags order of
         None \<Rightarrow> k = [] \<and> r = None
       | Some p \<Rightarrow>
           if dma_coherent_ok e dev (page_to_phys e p) sz then k = [] \<and> r = Some p
           else (case k of
                   [] \<Rightarrow> False
                 | c' # k' \<Rightarrow>
                     c' = Dma_free_contiguous p sz \<and>
                     (case narrower_retry e phys_limit flags of
                        None \<Rightarrow> k' = [] \<and> r = None
                      | Some flags' \<Rightarrow>
                          zone_rank flags' < zone_rank flags \<and>
                          page_allocator_ladder e dev sz phys_limit node order flags' (h @ [c, c']) r k'))))"

definition first_request :: "env \<Rightarrow> device \<Rightarrow> gfp_t \<Rightarrow> u64 \<Rightarrow> gfp_t" where
  "first_request e dev flags attrs =
     (if attrs AND DMA_ATTR_NO_WARN \<noteq> 0 then flags OR GFP_NOWARN else flags) AND NOT GFP_ZERO
       OR fst (uu_dma_direct_optimal_gfp_mask e dev (coherent_dma_mask dev))"

lemma zone_requests_append [simp]: "zone_requests (h @ k) = zone_requests h @ zone_requests k"
  by (simp add: zone_requests_def)

lemma zone_requests_simps [simp]:
  "zone_requests [] = []"
  "zone_requests (Alloc_pages_node node flags order # h) = zone_rank flags # zone_requests h"
  "zone_requests (Dma_alloc_contiguous sz flags # h) = zone_rank flags # zone_requests h"
  "zone_requests (Dma_free_contiguous p sz # h) = zone_requests h"
  by (simp_all add: zone_requests_def)

lemma again_zone_requests:
  "\<exists>rs. zone_requests (snd (again e dev sz alloc_size node phys_limit flags page h))
           = zone_requests h @ rs \<and> sorted_wrt (>) rs \<and>
         (\<forall>r\<in>set rs. r \<le> zone_rank flags \<and> (page \<noteq> None \<longrightarrow> r < zone_rank flags))"
proof (induction "zone_rank flags" arbitrary: flags page h rule: less_induct)
  case less
  have retry: "\<exists>rs. zone_requests (snd (again e dev sz alloc_size node phys_limit flags' None
                  (k @ [Dma_free_contiguous p sz])))
           = zone_requests k @ rs \<and> sorted_wrt (>) rs \<and> (\<forall>r\<in>set rs. r < zone_rank flags)"
    if "zone_rank flags' < zone_rank flags" for flags' k p
    using less [OF that, of None "k @ [Dma_free_contiguous p sz]"] that
    by fastforce
  have some: "\<exists>rs. zone_requests (snd (again e dev sz alloc_size node phys_limit flags (Some p) k))
           = zone_requests k @ rs \<and> sorted_wrt (>) rs \<and> (\<forall>r\<in>set rs. r < zone_rank flags)" for p k
    using retry [OF zone_rank_dma32 [of flags], of k p] retry [OF zone_rank_dma [of flags], of k p]
    by (simp add: again_Some)
  show ?case
  proof (cases page)
    case None
    show ?thesis
    proof (cases "alloc_pages_node e h node flags (get_order e alloc_size)")
      case None
      with \<open>page = None\<close> show ?thesis
        by (simp add: again_None)
    next
      case (Some p)
      from some [of p "h @ [Alloc_pages_node node flags (get_order e alloc_size)]"]
      obtain rs where rs:
        "zone_requests (snd (again e dev sz alloc_size node phys_limit flags (Some p)
            (h @ [Alloc_pages_node node flags (get_order e alloc_size)])))
           = zone_requests h @ zone_rank flags # rs"
        "sorted_wrt (>) rs" "\<forall>r\<in>set rs. r < zone_rank flags"
        by auto
      have "sorted_wrt (>) (zone_rank flags # rs)"
        using rs by auto
      moreover have "\<forall>r\<in>set (zone_rank flags # rs). r \<le> zone_rank flags"
        using rs by auto
      ultimately show ?thesis
        using rs(1) Some \<open>page = None\<close> by (simp add: again_None)
    qed
  next
    case (Some p)
    with some [of p h] show ?thesis by fastforce
  qed
qed


text \<open>Setting \<open>__GFP_NOWARN\<close> and clearing \<open>__GFP_ZERO\<close> leave the zone flags as they are.\<close>

lemma keep_bits:
  "(m :: 'a::len word) AND b = 0 \<Longrightarrow> ((f AND NOT m) OR z) AND b = (f AND b) OR (z AND b)"
  apply (rule bit_eqI)
  apply (auto simp: bit_and_iff bit_or_iff bit_not_iff bit_eq_iff)
  done

lemma keep_bits2:
  "(m :: 'a::len word) AND b = 0 \<Longrightarrow> (f OR m) AND b = f AND b"
  apply (rule bit_eqI)
  apply (auto simp: bit_and_iff bit_or_iff bit_not_iff bit_eq_iff)
  done

lemma zone_rank_first_request:
  assumes "flags AND (GFP_DMA32 OR GFP_DMA) = 0"
  shows "zone_rank ((if c then flags OR GFP_NOWARN else flags) AND NOT GFP_ZERO OR zone)
           = zone_rank zone"
proof -
  define g where "g = (if c then flags OR GFP_NOWARN else flags)"
  have c: "GFP_ZERO AND GFP_DMA = 0" "GFP_ZERO AND GFP_DMA32 = 0"
    "GFP_NOWARN AND GFP_DMA = 0" "GFP_NOWARN AND GFP_DMA32 = 0"
    by (simp_all add: GFP_ZERO_def GFP_NOWARN_def GFP_DMA_def GFP_DMA32_def)
  from and_or_zero [OF assms] have f: "flags AND GFP_DMA32 = 0" "flags AND GFP_DMA = 0"
    by simp_all
  have g: "g AND GFP_DMA = 0" "g AND GFP_DMA32 = 0"
    unfolding g_def using f keep_bits2 [OF c(3), of flags] keep_bits2 [OF c(4), of flags]
    by (cases c; simp)+
  have "(g AND NOT GFP_ZERO OR zone) AND GFP_DMA = zone AND GFP_DMA"
    "(g AND NOT GFP_ZERO OR zone) AND GFP_DMA32 = zone AND GFP_DMA32"
    using keep_bits [OF c(1), of g zone] keep_bits [OF c(2), of g zone] g
    by simp_all
  then show ?thesis
    unfolding g_def [symmetric] by (simp add: zone_rank_def)
qed

lemma first_zone_request:
  assumes "flags AND (GFP_DMA32 OR GFP_DMA) = 0"
  shows "hd (zone_requests (snd (uu_dma_direct_alloc_pages e dev sz flags attrs [])))
           = zone_rank (fst (uu_dma_direct_optimal_gfp_mask e dev (coherent_dma_mask dev)))"
proof -
  obtain zone phys_limit where
    z: "uu_dma_direct_optimal_gfp_mask e dev (coherent_dma_mask dev) = (zone, phys_limit)"
    by (cases "uu_dma_direct_optimal_gfp_mask e dev (coherent_dma_mask dev)")
  have *: "hd (zone_requests (snd (again e dev sz a n l f page k))) = zone_rank f"
    if "zone_requests k = [zone_rank f]" for a n l f page k
    using again_zone_requests [of e dev sz a n l f page k] that by auto
  have t: "zone_rank ((flags OR GFP_NOWARN) AND NOT GFP_ZERO OR zone) = zone_rank zone"
    using zone_rank_first_request [OF assms, of True] by simp
  have f: "zone_rank (flags AND NOT GFP_ZERO OR zone) = zone_rank zone"
    using zone_rank_first_request [OF assms, of False] by simp
  show ?thesis
    by (simp add: uu_dma_direct_alloc_pages_def Let_def z * t f split: option.splits)
qed

lemma narrower_retry_rank:
  "narrower_retry e phys_limit flags = Some flags' \<Longrightarrow> zone_rank flags' < zone_rank flags"
  by (auto simp: narrower_retry_def zone_rank_dma32 zone_rank_dma split: if_splits)

lemma again_Some_retry:
  "again e dev sz alloc_size node phys_limit flags (Some p) h =
     (if dma_coherent_ok e dev (page_to_phys e p) sz then (Some p, h)
      else case narrower_retry e phys_limit flags of
             Some flags' \<Rightarrow> again e dev sz alloc_size node phys_limit flags' None
                              (h @ [Dma_free_contiguous p sz])
           | None \<Rightarrow> (None, h @ [Dma_free_contiguous p sz]))"
  by (simp add: again_Some narrower_retry_def)

lemma again_ladder:
  "\<exists>k. snd (again e dev sz alloc_size node phys_limit flags None h) = h @ k \<and>
       page_allocator_ladder e dev sz phys_limit node (get_order e alloc_size) flags h
         (fst (again e dev sz alloc_size node phys_limit flags None h)) k"
proof (induction "zone_rank flags" arbitrary: flags h rule: less_induct)
  case less
  let ?A = "Alloc_pages_node node flags (get_order e alloc_size)"
  show ?case
  proof (cases "alloc_pages_node e h node flags (get_order e alloc_size)")
    case None
    then have "again e dev sz alloc_size node phys_limit flags None h = (None, h @ [?A])"
      by (simp add: again_None)
    moreover have "page_allocator_ladder e dev sz phys_limit node (get_order e alloc_size) flags h None [?A]"
      using None by simp
    ultimately show ?thesis by simp
  next
    case (Some p)
    show ?thesis
    proof (cases "dma_coherent_ok e dev (page_to_phys e p) sz")
      case True
      with Some have "again e dev sz alloc_size node phys_limit flags None h = (Some p, h @ [?A])"
        by (simp add: again_None again_Some_retry)
      moreover have "page_allocator_ladder e dev sz phys_limit node (get_order e alloc_size) flags h (Some p) [?A]"
        using Some True by simp
      ultimately show ?thesis by simp
    next
      case False
      show ?thesis
      proof (cases "narrower_retry e phys_limit flags")
        case None
        with Some False
        have "again e dev sz alloc_size node phys_limit flags None h
            = (None, h @ [?A, Dma_free_contiguous p sz])"
          by (simp add: again_None again_Some_retry)
        moreover have "page_allocator_ladder e dev sz phys_limit node (get_order e alloc_size) flags h None
            [?A, Dma_free_contiguous p sz]"
          using None False Some by simp
        ultimately show ?thesis by simp
      next
        case (Some flags')
        note r = narrower_retry_rank [OF Some]
        let ?h = "h @ [?A, Dma_free_contiguous p sz]"
        let ?R = "again e dev sz alloc_size node phys_limit flags' None ?h"
        from less [OF r, of ?h]
        obtain k where k: "snd ?R = ?h @ k"
          "page_allocator_ladder e dev sz phys_limit node (get_order e alloc_size) flags' ?h (fst ?R) k"
          by blast
        have eq: "again e dev sz alloc_size node phys_limit flags None h = ?R"
          using \<open>alloc_pages_node e h node flags (get_order e alloc_size) = Some p\<close> False Some
          by (simp add: again_None again_Some_retry)
        have "snd ?R = h @ (?A # Dma_free_contiguous p sz # k)"
          using k(1) by simp
        moreover have "page_allocator_ladder e dev sz phys_limit node (get_order e alloc_size) flags h (fst ?R)
            (?A # Dma_free_contiguous p sz # k)"
          using Some False r k(2)
            \<open>alloc_pages_node e h node flags (get_order e alloc_size) = Some p\<close>
          by simp
        ultimately show ?thesis
          unfolding eq by blast
      qed
    qed
  qed
qed

lemma alloc_pages_ladder:
  "(case dma_alloc_contiguous e [] dev (PAGE_ALIGN e sz) (first_request e dev flags attrs) of
      None \<Rightarrow>
        (\<exists>k. snd (uu_dma_direct_alloc_pages e dev sz flags attrs []) =
               [Dma_alloc_contiguous (PAGE_ALIGN e sz) (first_request e dev flags attrs)] @ k \<and>
             page_allocator_ladder e dev sz (snd (uu_dma_direct_optimal_gfp_mask e dev (coherent_dma_mask dev)))
               (dev_to_node e dev) (get_order e (PAGE_ALIGN e sz)) (first_request e dev flags attrs)
               [Dma_alloc_contiguous (PAGE_ALIGN e sz) (first_request e dev flags attrs)]
               (fst (uu_dma_direct_alloc_pages e dev sz flags attrs [])) k)
    | Some p \<Rightarrow>
        if dma_coherent_ok e dev (page_to_phys e p) sz
        then uu_dma_direct_alloc_pages e dev sz flags attrs [] =
               (Some p, [Dma_alloc_contiguous (PAGE_ALIGN e sz) (first_request e dev flags attrs)])
        else (\<exists>k. snd (uu_dma_direct_alloc_pages e dev sz flags attrs []) =
               [Dma_alloc_contiguous (PAGE_ALIGN e sz) (first_request e dev flags attrs),
                Dma_free_contiguous p (PAGE_ALIGN e sz)] @ k \<and>
             page_allocator_ladder e dev sz (snd (uu_dma_direct_optimal_gfp_mask e dev (coherent_dma_mask dev)))
               (dev_to_node e dev) (get_order e (PAGE_ALIGN e sz)) (first_request e dev flags attrs)
               [Dma_alloc_contiguous (PAGE_ALIGN e sz) (first_request e dev flags attrs),
                Dma_free_contiguous p (PAGE_ALIGN e sz)]
               (fst (uu_dma_direct_alloc_pages e dev sz flags attrs [])) k))"
proof -
  obtain zone phys_limit where
    z: "uu_dma_direct_optimal_gfp_mask e dev (coherent_dma_mask dev) = (zone, phys_limit)"
    by (cases "uu_dma_direct_optimal_gfp_mask e dev (coherent_dma_mask dev)")
  let ?f0 = "first_request e dev flags attrs"
  let ?a = "PAGE_ALIGN e sz"
  have u: "uu_dma_direct_alloc_pages e dev sz flags attrs [] =
     (case dma_alloc_contiguous e [] dev ?a ?f0 of
        None \<Rightarrow> again e dev sz ?a (dev_to_node e dev) phys_limit ?f0 None [Dma_alloc_contiguous ?a ?f0]
      | Some p \<Rightarrow>
          if \<not> dma_coherent_ok e dev (page_to_phys e p) sz
          then again e dev sz ?a (dev_to_node e dev) phys_limit ?f0 None
                 [Dma_alloc_contiguous ?a ?f0, Dma_free_contiguous p ?a]
          else again e dev sz ?a (dev_to_node e dev) phys_limit ?f0 (Some p) [Dma_alloc_contiguous ?a ?f0])"
    by (simp add: uu_dma_direct_alloc_pages_def Let_def z first_request_def
          cong: option.case_cong if_cong)
  show ?thesis
  proof (cases "dma_alloc_contiguous e [] dev ?a ?f0")
    case None
    from again_ladder [of e dev sz ?a "dev_to_node e dev" phys_limit ?f0 "[Dma_alloc_contiguous ?a ?f0]"]
    show ?thesis
      using None u z by simp
  next
    case (Some p)
    show ?thesis
    proof (cases "dma_coherent_ok e dev (page_to_phys e p) sz")
      case True
      with Some u show ?thesis
        by (simp add: again_Some)
    next
      case False
      from again_ladder [of e dev sz ?a "dev_to_node e dev" phys_limit ?f0
          "[Dma_alloc_contiguous ?a ?f0, Dma_free_contiguous p ?a]"]
      show ?thesis
        using Some False u z by simp
    qed
  qed
qed

text \<open>
  C1, as amended. \<open>__dma_direct_optimal_gfp_mask\<close> picks the narrowest tier whose largest
  address covers the physical limit, and the first allocator call of
  \<open>__dma_direct_alloc_pages\<close> asks for that tier when the caller's mask carries no zone
  flag. One allocation calls the contiguous pool with the first mask; its page is the
  result when the device can reach it; otherwise (no page, or a page that is released as
  not reachable) the ladder of the page allocator follows from the same mask: each page of
  the page allocator that the device cannot reach is released and followed by a call for
  the next narrower zone the configuration has, or by the result \<open>NULL\<close> when there is
  none. The zones asked for never get wider: the ranks of all allocator calls are in
  descending order, and those of the page allocator strictly so.
\<close>

theorem zone_ladder_descends:
  "narrowest_tier e (snd (uu_dma_direct_optimal_gfp_mask e dev dmask))
     = Some (zone_rank (fst (uu_dma_direct_optimal_gfp_mask e dev dmask))) \<and>
   (flags AND (GFP_DMA32 OR GFP_DMA) = 0 \<longrightarrow>
      hd (zone_requests (snd (uu_dma_direct_alloc_pages e dev sz flags attrs [])))
        = zone_rank (fst (uu_dma_direct_optimal_gfp_mask e dev (coherent_dma_mask dev)))) \<and>
   (case dma_alloc_contiguous e [] dev (PAGE_ALIGN e sz) (first_request e dev flags attrs) of
      None \<Rightarrow>
        (\<exists>k. snd (uu_dma_direct_alloc_pages e dev sz flags attrs []) =
               [Dma_alloc_contiguous (PAGE_ALIGN e sz) (first_request e dev flags attrs)] @ k \<and>
             page_allocator_ladder e dev sz (snd (uu_dma_direct_optimal_gfp_mask e dev (coherent_dma_mask dev)))
               (dev_to_node e dev) (get_order e (PAGE_ALIGN e sz)) (first_request e dev flags attrs)
               [Dma_alloc_contiguous (PAGE_ALIGN e sz) (first_request e dev flags attrs)]
               (fst (uu_dma_direct_alloc_pages e dev sz flags attrs [])) k)
    | Some p \<Rightarrow>
        if dma_coherent_ok e dev (page_to_phys e p) sz
        then uu_dma_direct_alloc_pages e dev sz flags attrs [] =
               (Some p, [Dma_alloc_contiguous (PAGE_ALIGN e sz) (first_request e dev flags attrs)])
        else (\<exists>k. snd (uu_dma_direct_alloc_pages e dev sz flags attrs []) =
               [Dma_alloc_contiguous (PAGE_ALIGN e sz) (first_request e dev flags attrs),
                Dma_free_contiguous p (PAGE_ALIGN e sz)] @ k \<and>
             page_allocator_ladder e dev sz (snd (uu_dma_direct_optimal_gfp_mask e dev (coherent_dma_mask dev)))
               (dev_to_node e dev) (get_order e (PAGE_ALIGN e sz)) (first_request e dev flags attrs)
               [Dma_alloc_contiguous (PAGE_ALIGN e sz) (first_request e dev flags attrs),
                Dma_free_contiguous p (PAGE_ALIGN e sz)]
               (fst (uu_dma_direct_alloc_pages e dev sz flags attrs [])) k)) \<and>
   sorted_wrt (\<ge>) (zone_requests (snd (uu_dma_direct_alloc_pages e dev sz flags attrs []))) \<and>
   sorted_wrt (>) (tl (zone_requests (snd (uu_dma_direct_alloc_pages e dev sz flags attrs []))))"
proof -
  have tier: "narrowest_tier e (snd (uu_dma_direct_optimal_gfp_mask e dev dmask))
     = Some (zone_rank (fst (uu_dma_direct_optimal_gfp_mask e dev dmask)))"
    by (simp add: narrowest_tier_def tiers_def uu_dma_direct_optimal_gfp_mask_def Let_def
          zone_rank_def GFP_DMA_def GFP_DMA32_def)
  obtain zone phys_limit where
    z: "uu_dma_direct_optimal_gfp_mask e dev (coherent_dma_mask dev) = (zone, phys_limit)"
    by (cases "uu_dma_direct_optimal_gfp_mask e dev (coherent_dma_mask dev)")
  have *: "sorted_wrt (\<ge>) (zone_requests (snd (again e dev sz a n l f page k))) \<and>
      sorted_wrt (>) (tl (zone_requests (snd (again e dev sz a n l f page k))))"
    if "zone_requests k = [zone_rank f]" for a n l f page k
  proof -
    have mono: "sorted_wrt (\<ge>) rs" if "sorted_wrt (>) rs" for rs :: "nat list"
      using that by (rule sorted_wrt_mono_rel [rotated]) simp
    show ?thesis
      using again_zone_requests [of e dev sz a n l f page k] \<open>zone_requests k = [zone_rank f]\<close>
      by (auto simp: mono)
  qed
  have order: "sorted_wrt (\<ge>) (zone_requests (snd (uu_dma_direct_alloc_pages e dev sz flags attrs []))) \<and>
    sorted_wrt (>) (tl (zone_requests (snd (uu_dma_direct_alloc_pages e dev sz flags attrs []))))"
    by (simp add: uu_dma_direct_alloc_pages_def Let_def z * split: option.splits)
  from tier first_zone_request [of flags e dev sz attrs] alloc_pages_ladder [of e dev sz flags attrs]
    order
  show ?thesis by blast
qed

theorem zone_ladder_descends_witness:
  "(0 :: gfp_t) AND (GFP_DMA32 OR GFP_DMA) = 0 \<and>
   narrowest_tier example_env 0x1FFFFFFFF = Some 2 \<and>
   uu_dma_direct_alloc_pages example_env (example_dev 0x1FFFFFFFF 0) 4096 0 0 [] =
     (Some 0x80000,
      [Dma_alloc_contiguous 4096 0, Alloc_pages_node 0 0 0, Dma_free_contiguous 0x200000 4096,
       Alloc_pages_node 0 4 0]) \<and>
   \<not> dma_coherent_ok example_env (example_dev 0x1FFFFFFFF 0) (page_to_phys example_env 0x200000) 4096 \<and>
   zone_requests (snd (uu_dma_direct_alloc_pages example_env (example_dev 0x1FFFFFFFF 0)
      4096 0 0 [])) = [2, 2, 1] \<and>
   sorted_wrt (\<ge>) (zone_requests (snd (uu_dma_direct_alloc_pages example_env
      (example_dev 0x1FFFFFFFF 0) 4096 0 0 [])))"
  using zone_ladder_descends [where e = example_env and dev = "example_dev 0x1FFFFFFFF 0"
      and dmask = "0x1FFFFFFFF" and flags = 0 and sz = 4096 and attrs = 0]
  by (simp add: uu_dma_direct_alloc_pages_def again_None again_Some example_simps zone_rank_def
        narrowest_tier_def tiers_def)

text \<open>
  C1, as stated, fails: on the example platform a device with a 33-bit mask first gets a
  page above its mask from the unrestricted zone (rank 2) and the retry asks for
  \<open>ZONE_DMA32\<close> (rank 1), a narrower zone, not a wider one.
\<close>

theorem zone_ladder_counterexample:
  "\<not> sorted (zone_requests (snd (uu_dma_direct_alloc_pages example_env
       (example_dev 0x1FFFFFFFF 0) 4096 0 0 [])))"
  by (simp add: uu_dma_direct_alloc_pages_def again_None again_Some example_simps zone_rank_def)

text \<open>
  The bound of three calls is reached: with a page allocator that hands out a page above
  the device's mask whatever the zone, the page allocator is called for each of the three
  zones and the allocation fails.
\<close>

definition unreachable_env :: env where
  "unreachable_env = example_env\<lparr>alloc_pages_node := (\<lambda>h node flags order. Some 0x200000)\<rparr>"

lemma alloc_pages_node_three_calls_example:
  "uu_dma_direct_alloc_pages unreachable_env (example_dev 0x1FFFFFFFF 0) 4096 0 0 [] =
     (None,
      [Dma_alloc_contiguous 4096 0,
       Alloc_pages_node 0 0 0, Dma_free_contiguous 0x200000 4096,
       Alloc_pages_node 0 4 0, Dma_free_contiguous 0x200000 4096,
       Alloc_pages_node 0 1 0, Dma_free_contiguous 0x200000 4096])"
  by (simp add: uu_dma_direct_alloc_pages_def again_None again_Some unreachable_env_def example_simps)



section \<open>Synchronisation of streaming mappings\<close>

text \<open>
  The functions return the history with their calls appended. \<open>for_each_sg(sgl, sg, nents, i)\<close>
  walks the first \<open>nents\<close> entries of the list in order; the loops below recurse over
  these entries.
\<close>

definition dma_direct_sync_single_for_device ::
  "env \<Rightarrow> device \<Rightarrow> u64 \<Rightarrow> u64 \<Rightarrow> dma_data_direction \<Rightarrow> call list \<Rightarrow> call list" where
  "dma_direct_sync_single_for_device e dev addr sz dir h =
     (let paddr = dma_to_phys e dev addr;
          h = (if is_swiotlb_buffer e paddr
               then h @ [Swiotlb_tbl_sync_single paddr sz dir SYNC_FOR_DEVICE] else h)
      in if \<not> dev_is_dma_coherent e dev then h @ [Arch_sync_dma_for_device paddr sz dir] else h)"

fun sync_sg_for_device_loop ::
  "env \<Rightarrow> device \<Rightarrow> dma_data_direction \<Rightarrow> scatterlist list \<Rightarrow> call list \<Rightarrow> call list" where
  "sync_sg_for_device_loop e dev dir [] h = h"
| "sync_sg_for_device_loop e dev dir (sg # rest) h =
     (let paddr = dma_to_phys e dev (dma_address sg);
          h = (if is_swiotlb_buffer e paddr
               then h @ [Swiotlb_tbl_sync_single paddr (length_sg sg) dir SYNC_FOR_DEVICE] else h);
          h = (if \<not> dev_is_dma_coherent e dev
               then h @ [Arch_sync_dma_for_device paddr (length_sg sg) dir] else h)
      in sync_sg_for_device_loop e dev dir rest h)"

definition dma_direct_sync_sg_for_device ::
  "env \<Rightarrow> device \<Rightarrow> scatterlist list \<Rightarrow> int \<Rightarrow> dma_data_direction \<Rightarrow> call list \<Rightarrow> call list" where
  "dma_direct_sync_sg_for_device e dev sgl nents dir h =
     sync_sg_for_device_loop e dev dir (take (nat nents) sgl) h"

definition dma_direct_sync_single_for_cpu ::
  "env \<Rightarrow> device \<Rightarrow> u64 \<Rightarrow> u64 \<Rightarrow> dma_data_direction \<Rightarrow> call list \<Rightarrow> call list" where
  "dma_direct_sync_single_for_cpu e dev addr sz dir h =
     (let paddr = dma_to_phys e dev addr;
          h = (if \<not> dev_is_dma_coherent e dev
               then h @ [Arch_sync_dma_for_cpu paddr sz dir, Arch_sync_dma_for_cpu_all] else h)
      in if is_swiotlb_buffer e paddr
         then h @ [Swiotlb_tbl_sync_single paddr sz dir SYNC_FOR_CPU] else h)"

fun sync_sg_for_cpu_loop ::
  "env \<Rightarrow> device \<Rightarrow> dma_data_direction \<Rightarrow> scatterlist list \<Rightarrow> call list \<Rightarrow> call list" where
  "sync_sg_for_cpu_loop e dev dir [] h = h"
| "sync_sg_for_cpu_loop e dev dir (sg # rest) h =
     (let paddr = dma_to_phys e dev (dma_address sg);
          h = (if \<not> dev_is_dma_coherent e dev
               then h @ [Arch_sync_dma_for_cpu paddr (length_sg sg) dir] else h);
          h = (if is_swiotlb_buffer e paddr
               then h @ [Swiotlb_tbl_sync_single paddr (length_sg sg) dir SYNC_FOR_CPU] else h)
      in sync_sg_for_cpu_loop e dev dir rest h)"

definition dma_direct_sync_sg_for_cpu ::
  "env \<Rightarrow> device \<Rightarrow> scatterlist list \<Rightarrow> int \<Rightarrow> dma_data_direction \<Rightarrow> call list \<Rightarrow> call list" where
  "dma_direct_sync_sg_for_cpu e dev sgl nents dir h =
     (let h = sync_sg_for_cpu_loop e dev dir (take (nat nents) sgl) h
      in if \<not> dev_is_dma_coherent e dev then h @ [Arch_sync_dma_for_cpu_all] else h)"

text \<open>
  The spec's order for one buffer or one entry, in its own words: the architecture's
  invalidation (the invalidation of the range and the architecture-wide one) happens before
  the copy back from the bounce slot. A history keeps it when no call of the
  architecture's invalidation follows a copy back (\<open>swiotlb_tbl_sync_single\<close> with
  \<open>SYNC_FOR_CPU\<close>).
\<close>

fun is_copy_back :: "call \<Rightarrow> bool" where
  "is_copy_back (Swiotlb_tbl_sync_single paddr sz dir SYNC_FOR_CPU) = True"
| "is_copy_back c = False"

fun is_arch_invalidate :: "call \<Rightarrow> bool" where
  "is_arch_invalidate (Arch_sync_dma_for_cpu paddr sz dir) = True"
| "is_arch_invalidate Arch_sync_dma_for_cpu_all = True"
| "is_arch_invalidate c = False"

definition invalidation_before_copy_back :: "call list \<Rightarrow> bool" where
  "invalidation_before_copy_back h =
     list_all (\<lambda>c. \<not> is_arch_invalidate c) (dropWhile (\<lambda>c. \<not> is_copy_back c) h)"

definition example_sg :: "page \<Rightarrow> u64 \<Rightarrow> u64 \<Rightarrow> scatterlist" where
  "example_sg p len addr =
     \<lparr> sg_page = p, offset = 0, length_sg = len, dma_address = addr, dma_length = len \<rparr>"

subsection \<open>Scatterlists are synchronised entry by entry\<close>

lemma sync_sg_for_device_loop_calls:
  "sync_sg_for_device_loop e dev dir sgs h =
     h @ concat (map (\<lambda>sg. dma_direct_sync_single_for_device e dev (dma_address sg) (length_sg sg) dir []) sgs)"
  by (induction sgs arbitrary: h) (simp_all add: dma_direct_sync_single_for_device_def Let_def)

lemma sync_sg_for_cpu_loop_calls:
  "sync_sg_for_cpu_loop e dev dir sgs h =
     h @ concat (map (\<lambda>sg. filter (\<lambda>c. c \<noteq> Arch_sync_dma_for_cpu_all)
        (dma_direct_sync_single_for_cpu e dev (dma_address sg) (length_sg sg) dir [])) sgs)"
  by (induction sgs arbitrary: h) (simp_all add: dma_direct_sync_single_for_cpu_def Let_def)

text \<open>
  C7, as amended. Both scatterlist synchronisations apply their effects entry by entry in
  the order of the list: for the device, the calls are those of
  \<open>dma_direct_sync_single_for_device\<close> for each entry in turn; for the CPU, they are those of
  \<open>dma_direct_sync_single_for_cpu\<close> for each entry in turn without the architecture-wide
  \<open>arch_sync_dma_for_cpu_all\<close>, which is made once, after the last entry, for a device
  that is not coherent.
\<close>

theorem sync_sg_per_segment:
  "dma_direct_sync_sg_for_device e dev sgl nents dir h =
     h @ concat (map (\<lambda>sg. dma_direct_sync_single_for_device e dev (dma_address sg) (length_sg sg) dir [])
                   (take (nat nents) sgl)) \<and>
   dma_direct_sync_sg_for_cpu e dev sgl nents dir h =
     h @ concat (map (\<lambda>sg. filter (\<lambda>c. c \<noteq> Arch_sync_dma_for_cpu_all)
                     (dma_direct_sync_single_for_cpu e dev (dma_address sg) (length_sg sg) dir []))
                   (take (nat nents) sgl))
       @ (if dev_is_dma_coherent e dev then [] else [Arch_sync_dma_for_cpu_all])"
  by (simp add: dma_direct_sync_sg_for_device_def dma_direct_sync_sg_for_cpu_def Let_def
        sync_sg_for_device_loop_calls sync_sg_for_cpu_loop_calls)

text \<open>
  C7, as stated, fails for the CPU direction: for two entries of a device that is not
  coherent, the calls are not those of two single synchronisations one after the other,
  the architecture-wide invalidation being made once for both.
\<close>

theorem sync_sg_for_cpu_batched_counterexample:
  "dma_direct_sync_sg_for_cpu example_env (example_dev 0xFFFFFFFF 0)
      [example_sg 1 4096 0x1000, example_sg 2 4096 0x2000] 2 DMA_FROM_DEVICE []
   \<noteq> concat (map (\<lambda>sg. dma_direct_sync_single_for_cpu example_env (example_dev 0xFFFFFFFF 0)
                     (dma_address sg) (length_sg sg) DMA_FROM_DEVICE [])
         [example_sg 1 4096 0x1000, example_sg 2 4096 0x2000])"
  by (simp add: dma_direct_sync_sg_for_cpu_def dma_direct_sync_single_for_cpu_def Let_def
        example_env_def example_sg_def)

subsection \<open>Invalidation and the copy back\<close>

lemma sync_sg_for_cpu_loop_segments:
  "\<not> dev_is_dma_coherent e dev \<Longrightarrow>
   sync_sg_for_cpu_loop e dev dir sgs h =
     h @ concat (map (\<lambda>sg.
        Arch_sync_dma_for_cpu (dma_to_phys e dev (dma_address sg)) (length_sg sg) dir #
        (if is_swiotlb_buffer e (dma_to_phys e dev (dma_address sg))
         then [Swiotlb_tbl_sync_single (dma_to_phys e dev (dma_address sg)) (length_sg sg) dir
                 SYNC_FOR_CPU]
         else [])) sgs)"
  by (induction sgs arbitrary: h) (simp_all add: Let_def)

text \<open>
  C5, as amended. For a device that is not coherent, \<open>dma_direct_sync_single_for_cpu\<close>
  makes exactly these calls, in this order: the invalidation of the buffer's range, the
  architecture-wide invalidation, and then the copy back when the buffer is a bounce slot;
  so all of the architecture's invalidation comes before the copy back.
  \<open>dma_direct_sync_sg_for_cpu\<close> makes, entry by entry in the order of the list, the
  invalidation of the entry's range and then at once the copy back of that same entry
  when it is a bounce slot, and after the last entry the architecture-wide invalidation,
  once.
\<close>

theorem sync_for_cpu_order:
  assumes "\<not> dev_is_dma_coherent e dev"
  shows "dma_direct_sync_single_for_cpu e dev addr sz dir h =
      h @ [Arch_sync_dma_for_cpu (dma_to_phys e dev addr) sz dir, Arch_sync_dma_for_cpu_all] @
        (if is_swiotlb_buffer e (dma_to_phys e dev addr)
         then [Swiotlb_tbl_sync_single (dma_to_phys e dev addr) sz dir SYNC_FOR_CPU] else []) \<and>
    invalidation_before_copy_back (dma_direct_sync_single_for_cpu e dev addr sz dir []) \<and>
    dma_direct_sync_sg_for_cpu e dev sgl nents dir h =
      h @ concat (map (\<lambda>sg.
          Arch_sync_dma_for_cpu (dma_to_phys e dev (dma_address sg)) (length_sg sg) dir #
          (if is_swiotlb_buffer e (dma_to_phys e dev (dma_address sg))
           then [Swiotlb_tbl_sync_single (dma_to_phys e dev (dma_address sg)) (length_sg sg) dir
                   SYNC_FOR_CPU]
           else [])) (take (nat nents) sgl))
        @ [Arch_sync_dma_for_cpu_all]"
  using assms
  by (simp add: dma_direct_sync_single_for_cpu_def dma_direct_sync_sg_for_cpu_def Let_def
        sync_sg_for_cpu_loop_segments invalidation_before_copy_back_def)

theorem sync_for_cpu_order_witness:
  "\<not> dev_is_dma_coherent example_env (example_dev 0xFFFFFFFF 0) \<and>
   dma_direct_sync_single_for_cpu example_env (example_dev 0xFFFFFFFF 0) 0x8000000 4096
      DMA_FROM_DEVICE [] =
     [Arch_sync_dma_for_cpu 0x8000000 4096 DMA_FROM_DEVICE, Arch_sync_dma_for_cpu_all,
      Swiotlb_tbl_sync_single 0x8000000 4096 DMA_FROM_DEVICE SYNC_FOR_CPU] \<and>
   invalidation_before_copy_back (dma_direct_sync_single_for_cpu example_env
      (example_dev 0xFFFFFFFF 0) 0x8000000 4096 DMA_FROM_DEVICE []) \<and>
   dma_direct_sync_sg_for_cpu example_env (example_dev 0xFFFFFFFF 0)
      [example_sg 1 4096 0x8001000, example_sg 2 4096 0x2000, example_sg 3 4096 0x8000000] 3
      DMA_FROM_DEVICE [] =
     [Arch_sync_dma_for_cpu 0x8001000 4096 DMA_FROM_DEVICE,
      Swiotlb_tbl_sync_single 0x8001000 4096 DMA_FROM_DEVICE SYNC_FOR_CPU,
      Arch_sync_dma_for_cpu 0x2000 4096 DMA_FROM_DEVICE,
      Arch_sync_dma_for_cpu 0x8000000 4096 DMA_FROM_DEVICE,
      Swiotlb_tbl_sync_single 0x8000000 4096 DMA_FROM_DEVICE SYNC_FOR_CPU,
      Arch_sync_dma_for_cpu_all]"
proof -
  have c: "\<not> dev_is_dma_coherent example_env (example_dev 0xFFFFFFFF 0)"
    by (simp add: example_env_def)
  from sync_for_cpu_order [OF c, of "0x8000000" 4096 DMA_FROM_DEVICE "[]"
      "[example_sg 1 4096 0x8001000, example_sg 2 4096 0x2000, example_sg 3 4096 0x8000000]" 3] c
  show ?thesis
    by (simp add: example_env_def example_sg_def invalidation_before_copy_back_def)
qed

text \<open>
  C5, as stated, fails for a scatterlist: for one entry in a bounce slot the
  architecture-wide invalidation, which the spec counts as part of the invalidation, is
  made after the copy back of the entry.
\<close>

theorem sync_sg_for_cpu_all_after_copy_back_counterexample:
  "dma_direct_sync_sg_for_cpu example_env (example_dev 0xFFFFFFFF 0)
      [example_sg 1 4096 0x8000000] 1 DMA_FROM_DEVICE [] =
     [Arch_sync_dma_for_cpu 0x8000000 4096 DMA_FROM_DEVICE,
      Swiotlb_tbl_sync_single 0x8000000 4096 DMA_FROM_DEVICE SYNC_FOR_CPU,
      Arch_sync_dma_for_cpu_all] \<and>
   \<not> invalidation_before_copy_back (dma_direct_sync_sg_for_cpu example_env
      (example_dev 0xFFFFFFFF 0) [example_sg 1 4096 0x8000000] 1 DMA_FROM_DEVICE [])"
  by (simp add: dma_direct_sync_sg_for_cpu_def Let_def example_env_def example_sg_def
        invalidation_before_copy_back_def)


section \<open>Streaming mappings\<close>

text \<open>
  \<open>report_addr\<close> writes to the log (once) and warns (once); the model records the calls.
\<close>

definition report_addr :: "env \<Rightarrow> device \<Rightarrow> u64 \<Rightarrow> u64 \<Rightarrow> call list \<Rightarrow> call list" where
  "report_addr e dev dma_addr sz h =
     (let h = (case dma_mask dev of
                 None \<Rightarrow> h @ [Dev_err_once_no_dma_mask]
               | Some m \<Rightarrow>
                   if m \<ge> DMA_BIT_MASK 32 \<or> bus_dma_limit dev \<noteq> 0
                   then h @ [Dev_err_once_overflow dma_addr sz m (bus_dma_limit dev)]
                   else h)
      in h @ [Warn_on_once])"




definition dma_direct_possible :: "env \<Rightarrow> device \<Rightarrow> u64 \<Rightarrow> u64 \<Rightarrow> bool" where
  "dma_direct_possible e dev dma_addr sz =
     (swiotlb_force e \<noteq> SWIOTLB_FORCE \<and> dma_capable e dev dma_addr sz True)"

text \<open>
  \<open>dma_direct_map_page\<close> returns the bus address, or \<open>DMA_MAPPING_ERROR\<close>, with the history.
  \<open>swiotlb_map\<close> is called only when the direct mapping is not possible, as \<open>&&\<close> does.
\<close>

definition dma_direct_map_page ::
  "env \<Rightarrow> device \<Rightarrow> page \<Rightarrow> u64 \<Rightarrow> u64 \<Rightarrow> dma_data_direction \<Rightarrow> u64 \<Rightarrow> call list
     \<Rightarrow> u64 \<times> call list" where
  "dma_direct_map_page e dev page offs sz dir attrs h =
     (let phys = page_to_phys e page + offs;
          dma_addr = phys_to_dma e dev phys;
          (failed, phys, dma_addr, h) =
            (if \<not> dma_direct_possible e dev dma_addr sz
             then (case swiotlb_map e h dev phys dma_addr sz dir attrs of
                     (ok, phys', dma_addr') \<Rightarrow>
                       (\<not> ok, phys', dma_addr', h @ [Swiotlb_map phys dma_addr sz dir attrs]))
             else (False, phys, dma_addr, h))
      in if failed then (DMA_MAPPING_ERROR, report_addr e dev dma_addr sz h)
         else (dma_addr,
               if \<not> dev_is_dma_coherent e dev \<and> attrs AND DMA_ATTR_SKIP_CPU_SYNC = 0
               then h @ [Arch_sync_dma_for_device phys sz dir] else h))"



fun is_swiotlb_map :: "call \<Rightarrow> bool" where
  "is_swiotlb_map (Swiotlb_map phys dma_addr sz dir attrs) = True"
| "is_swiotlb_map c = False"

text \<open>The example platform with \<open>swiotlb=force\<close>, and with a bounce pool of two slots.\<close>

definition forced_env :: env where
  "forced_env = example_env\<lparr>swiotlb_force := SWIOTLB_FORCE\<rparr>"



subsection \<open>A forced bounce pool takes every mapping\<close>

text \<open>
  C9. With \<open>swiotlb_force == SWIOTLB_FORCE\<close> every call of \<open>dma_direct_map_page\<close> goes to
  \<open>swiotlb_map\<close>, whether the device can reach the address or not, and returns the address
  of the bounce slot or the error value; a mapping made without \<open>swiotlb_map\<close> is
  returned only when the flag is not set and \<open>dma_capable\<close> accepts the address, and it
  is then the translated address of the page.
\<close>

theorem forced_bounce:
  "(swiotlb_force e = SWIOTLB_FORCE \<longrightarrow>
      list_ex is_swiotlb_map (snd (dma_direct_map_page e dev page offs sz dir attrs [])) \<and>
      fst (dma_direct_map_page e dev page offs sz dir attrs []) =
        (case swiotlb_map e [] dev (page_to_phys e page + offs)
                (phys_to_dma e dev (page_to_phys e page + offs)) sz dir attrs of
           (ok, phys', dma_addr') \<Rightarrow> if ok then dma_addr' else DMA_MAPPING_ERROR)) \<and>
   (\<not> list_ex is_swiotlb_map (snd (dma_direct_map_page e dev page offs sz dir attrs [])) \<longrightarrow>
      swiotlb_force e \<noteq> SWIOTLB_FORCE \<and>
      dma_capable e dev (phys_to_dma e dev (page_to_phys e page + offs)) sz True \<and>
      fst (dma_direct_map_page e dev page offs sz dir attrs []) =
        phys_to_dma e dev (page_to_phys e page + offs))"
  by (auto simp: dma_direct_map_page_def dma_direct_possible_def report_addr_def Let_def
        split: prod.splits if_splits option.splits)

theorem forced_bounce_witness:
  "swiotlb_force forced_env = SWIOTLB_FORCE \<and>
   dma_capable forced_env (example_dev 0xFFFFFFFF 0)
      (phys_to_dma forced_env (example_dev 0xFFFFFFFF 0) (page_to_phys forced_env 1 + 0)) 512 True \<and>
   list_ex is_swiotlb_map
      (snd (dma_direct_map_page forced_env (example_dev 0xFFFFFFFF 0) 1 0 512 DMA_TO_DEVICE 0 [])) \<and>
   dma_direct_map_page forced_env (example_dev 0xFFFFFFFF 0) 1 0 512 DMA_TO_DEVICE 0 [] =
     (0x8000000, [Swiotlb_map 0x1000 0x1000 512 DMA_TO_DEVICE 0,
                  Arch_sync_dma_for_device 0x8000000 512 DMA_TO_DEVICE])"
  using forced_bounce [of forced_env "example_dev 0xFFFFFFFF 0" 1 0 512 DMA_TO_DEVICE 0]
  by (simp add: forced_env_def example_env_def example_dev_def min_not_zero_def
        dma_direct_map_page_def dma_direct_possible_def Let_def DMA_ATTR_SKIP_CPU_SYNC_def)


subsection \<open>Mapping a scatterlist is all or nothing\<close>











section \<open>Coherent allocation\<close>

text \<open>
  The label \<open>done\<close> of \<open>dma_direct_alloc_pages\<close>: the bus address is written to
  \<open>*dma_handle\<close> and the address is returned. The function returns \<open>None\<close> for \<open>NULL\<close>.
\<close>

definition done_label ::
  "env \<Rightarrow> device \<Rightarrow> page \<Rightarrow> cpu_addr \<Rightarrow> call list \<Rightarrow> (cpu_addr \<times> u64) option \<times> call list" where
  "done_label e dev page ret h =
     (Some (ret, if force_dma_unencrypted e dev then uu_phys_to_dma e dev (page_to_phys e page)
                 else phys_to_dma e dev (page_to_phys e page)), h)"

definition dma_direct_alloc_pages ::
  "env \<Rightarrow> device \<Rightarrow> u64 \<Rightarrow> gfp_t \<Rightarrow> u64 \<Rightarrow> call list \<Rightarrow> (cpu_addr \<times> u64) option \<times> call list" where
  "dma_direct_alloc_pages e dev sz flags attrs h =
     (if CONFIG_DMA_DIRECT_REMAP e \<and> dma_alloc_need_uncached e dev attrs \<and>
         \<not> gfpflags_allow_blocking e flags
      then (case dma_alloc_from_pool e h (PAGE_ALIGN e sz) flags of
              None \<Rightarrow> (None, h @ [Dma_alloc_from_pool (PAGE_ALIGN e sz) flags])
            | Some (ret, page) \<Rightarrow>
                done_label e dev page (Vaddr ret) (h @ [Dma_alloc_from_pool (PAGE_ALIGN e sz) flags]))
      else
        (case uu_dma_direct_alloc_pages e dev sz flags attrs h of
           (None, h) \<Rightarrow> (None, h)
         | (Some page, h) \<Rightarrow>
             if attrs AND DMA_ATTR_NO_KERNEL_MAPPING \<noteq> 0 \<and> \<not> force_dma_unencrypted e dev
             then done_label e dev page (Page_cookie page)
                    (if \<not> PageHighMem e page then h @ [Arch_dma_prep_coherent page sz] else h)
             else if (CONFIG_DMA_DIRECT_REMAP e \<and> dma_alloc_need_uncached e dev attrs) \<or>
                     (CONFIG_DMA_REMAP e \<and> PageHighMem e page)
             then (let h = h @ [Arch_dma_prep_coherent page (PAGE_ALIGN e sz)] in
                   case dma_common_contiguous_remap e h page (PAGE_ALIGN e sz) of
                     None \<Rightarrow>
                       (None, h @ [Dma_common_contiguous_remap page (PAGE_ALIGN e sz),
                                   Dma_free_contiguous page sz])
                   | Some ret \<Rightarrow>
                       done_label e dev page (Vaddr ret)
                         (h @ [Dma_common_contiguous_remap page (PAGE_ALIGN e sz),
                               Memset ret 0 sz]))
             else if PageHighMem e page
             then (None, h @ [Dev_info, Dma_free_contiguous page sz])
             else (let ret = page_address e page;
                       h = (if force_dma_unencrypted e dev
                            then h @ [Set_memory_decrypted ret (2 ^ get_order e sz)] else h);
                       h = h @ [Memset ret 0 sz]
                   in if CONFIG_ARCH_HAS_UNCACHED_SEGMENT e \<and> dma_alloc_need_uncached e dev attrs
                      then done_label e dev page (Vaddr (uncached_kernel_address e ret))
                             (h @ [Arch_dma_prep_coherent page sz])
                      else done_label e dev page (Vaddr ret) h)))"

fun is_memset :: "call \<Rightarrow> bool" where
  "is_memset (Memset a v n) = True"
| "is_memset c = False"

text \<open>
  The example platform with high memory from page \<open>0x38000\<close> on and a contiguous pool
  that hands out that page.
\<close>

definition cma_highmem_env :: env where
  "cma_highmem_env = example_env\<lparr>
     PageHighMem := (\<lambda>p. 0x38000 \<le> p),
     dma_alloc_contiguous := (\<lambda>h dev sz flags. Some 0x38000)\<rparr>"

subsection \<open>A high-memory page without remapping\<close>

text \<open>
  C6, as amended. When neither \<open>CONFIG_DMA_DIRECT_REMAP\<close> nor \<open>CONFIG_DMA_REMAP\<close> is
  set and the page obtained is in high memory, the allocation fails: the page is freed
  and \<open>NULL\<close> is returned, unless the caller asked for no kernel mapping
  (\<open>DMA_ATTR_NO_KERNEL_MAPPING\<close>, the device not being forced unencrypted).
\<close>

theorem highmem_without_remap_fails:
  assumes "\<not> CONFIG_DMA_DIRECT_REMAP e" and "\<not> CONFIG_DMA_REMAP e"
    and "uu_dma_direct_alloc_pages e dev sz flags attrs h = (Some page, h1)"
    and "PageHighMem e page"
    and "attrs AND DMA_ATTR_NO_KERNEL_MAPPING = 0 \<or> force_dma_unencrypted e dev"
  shows "dma_direct_alloc_pages e dev sz flags attrs h
           = (None, h1 @ [Dev_info, Dma_free_contiguous page sz])"
  using assms by (auto simp: dma_direct_alloc_pages_def)

theorem highmem_without_remap_fails_witness:
  "PageHighMem cma_highmem_env 0x38000 \<and>
   uu_dma_direct_alloc_pages cma_highmem_env (example_dev 0xFFFFFFFF 0) 4096 0 0 []
     = (Some 0x38000, [Dma_alloc_contiguous 4096 4]) \<and>
   dma_direct_alloc_pages cma_highmem_env (example_dev 0xFFFFFFFF 0) 4096 0 0 []
     = (None, [Dma_alloc_contiguous 4096 4, Dev_info, Dma_free_contiguous 0x38000 4096])"
proof -
  have a: "uu_dma_direct_alloc_pages cma_highmem_env (example_dev 0xFFFFFFFF 0) 4096 0 0 []
     = (Some 0x38000, [Dma_alloc_contiguous 4096 4])"
    by (simp add: uu_dma_direct_alloc_pages_def again_Some cma_highmem_env_def example_simps)
  have b: "PageHighMem cma_highmem_env 0x38000"
    by (simp add: cma_highmem_env_def example_env_def)
  from highmem_without_remap_fails [OF _ _ a b] a b show ?thesis
    by (simp add: cma_highmem_env_def example_env_def)
qed

text \<open>
  C6, as stated, fails with \<open>DMA_ATTR_NO_KERNEL_MAPPING\<close>: the high-memory page of the
  contiguous pool is returned as the cookie, with no remap facility configured.
\<close>

theorem highmem_cookie_counterexample:
  "\<not> CONFIG_DMA_DIRECT_REMAP cma_highmem_env \<and> \<not> CONFIG_DMA_REMAP cma_highmem_env \<and>
   PageHighMem cma_highmem_env 0x38000 \<and>
   dma_direct_alloc_pages cma_highmem_env (example_dev 0xFFFFFFFF 0) 4096 0
       DMA_ATTR_NO_KERNEL_MAPPING []
     = (Some (Page_cookie 0x38000, 0x38000000), [Dma_alloc_contiguous 4096 4])"
  by (simp add: dma_direct_alloc_pages_def uu_dma_direct_alloc_pages_def again_Some done_label_def
        cma_highmem_env_def example_simps DMA_ATTR_NO_KERNEL_MAPPING_def)

subsection \<open>Zeroing\<close>

text \<open>
  The remapped and the directly mapped paths clear the buffer: a successful allocation
  that is not served from the atomic pool and not returned as a page cookie makes, after
  the page has been obtained, a \<open>memset\<close> of \<open>size\<close> zero bytes at the kernel address of
  the buffer, which is the address returned or the one its uncached alias is taken from.
\<close>

lemma mapped_paths_memset:
  assumes "dma_direct_alloc_pages e dev sz flags attrs h = (Some (ret, handle), h')"
    and "\<not> (CONFIG_DMA_DIRECT_REMAP e \<and> dma_alloc_need_uncached e dev attrs \<and>
            \<not> gfpflags_allow_blocking e flags)"
    and "attrs AND DMA_ATTR_NO_KERNEL_MAPPING = 0 \<or> force_dma_unencrypted e dev"
  shows "\<exists>a. Memset a 0 sz \<in>
              set (drop (length (snd (uu_dma_direct_alloc_pages e dev sz flags attrs h))) h') \<and>
           (ret = Vaddr a \<or> ret = Vaddr (uncached_kernel_address e a))"
proof -
  obtain pg h0 where a: "uu_dma_direct_alloc_pages e dev sz flags attrs h = (pg, h0)"
    by (cases "uu_dma_direct_alloc_pages e dev sz flags attrs h")
  from assms a show ?thesis
    by (auto simp: dma_direct_alloc_pages_def done_label_def Let_def
          split: option.splits if_splits)
qed

lemma mapped_paths_memset_example:
  "dma_direct_alloc_pages example_env (example_dev 0xFFFFFFFF 0) 4096 0 0 []
     = (Some (Vaddr 0xFFFF800080000000, 0x80000000),
        [Dma_alloc_contiguous 4096 4, Alloc_pages_node 0 4 0, Memset 0xFFFF800080000000 0 4096]) \<and>
   (\<exists>a. Memset a 0 4096 \<in> set (drop (length (snd (uu_dma_direct_alloc_pages example_env
            (example_dev 0xFFFFFFFF 0) 4096 0 0 [])))
          [Dma_alloc_contiguous 4096 4, Alloc_pages_node 0 4 0, Memset 0xFFFF800080000000 0 4096]) \<and>
        (Vaddr 0xFFFF800080000000 = Vaddr a \<or>
         Vaddr 0xFFFF800080000000 = Vaddr (uncached_kernel_address example_env a)))"
proof -
  have r: "dma_direct_alloc_pages example_env (example_dev 0xFFFFFFFF 0) 4096 0 0 []
     = (Some (Vaddr 0xFFFF800080000000, 0x80000000),
        [Dma_alloc_contiguous 4096 4, Alloc_pages_node 0 4 0, Memset 0xFFFF800080000000 0 4096])"
    by (simp add: dma_direct_alloc_pages_def uu_dma_direct_alloc_pages_def again_Some again_None
        done_label_def example_simps DMA_ATTR_NO_KERNEL_MAPPING_def)
  have c: "\<not> (CONFIG_DMA_DIRECT_REMAP example_env \<and>
        dma_alloc_need_uncached example_env (example_dev 0xFFFFFFFF 0) 0 \<and>
        \<not> gfpflags_allow_blocking example_env 0)"
    by (simp add: example_env_def)
  have k: "(0 :: u64) AND DMA_ATTR_NO_KERNEL_MAPPING = 0 \<or>
      force_dma_unencrypted example_env (example_dev 0xFFFFFFFF 0)"
    by simp
  from mapped_paths_memset [OF r c k] r show ?thesis
    by simp
qed

text \<open>
  C4. Every successful coherent allocation is to hand out zeroed memory, and
  \<open>__dma_direct_alloc_pages\<close> clears \<open>__GFP_ZERO\<close> in the caller's mask under the comment
  "we always manually zero the memory once we are done". The branch for
  \<open>DMA_ATTR_NO_KERNEL_MAPPING\<close> does not: on the example platform an allocation with
  \<open>__GFP_ZERO\<close> and that attribute succeeds, the page allocator is asked without
  \<open>__GFP_ZERO\<close> (mask 4, \<open>GFP_DMA32\<close> alone) and no \<open>memset\<close> is made before the page
  is returned as the cookie.
\<close>

theorem no_kernel_mapping_not_zeroed:
  "dma_direct_alloc_pages example_env (example_dev 0xFFFFFFFF 0) 4096 GFP_ZERO
       DMA_ATTR_NO_KERNEL_MAPPING []
     = (Some (Page_cookie 0x80000, 0x80000000),
        [Dma_alloc_contiguous 4096 4, Alloc_pages_node 0 4 0, Arch_dma_prep_coherent 0x80000 4096]) \<and>
   \<not> list_ex is_memset (snd (dma_direct_alloc_pages example_env (example_dev 0xFFFFFFFF 0) 4096
       GFP_ZERO DMA_ATTR_NO_KERNEL_MAPPING []))"
  by (simp add: dma_direct_alloc_pages_def uu_dma_direct_alloc_pages_def again_Some again_None
        done_label_def example_simps DMA_ATTR_NO_KERNEL_MAPPING_def)

section \<open>Mapping a coherent buffer into user space\<close>

definition dma_direct_mmap ::
  "env \<Rightarrow> device \<Rightarrow> vm_area_struct \<Rightarrow> u64 \<Rightarrow> u64 \<Rightarrow> u64 \<Rightarrow> u64 \<Rightarrow> call list
     \<Rightarrow> int \<times> vm_area_struct \<times> call list" where
  "dma_direct_mmap e dev vma cpu_addr dma_addr sz attrs h =
     (if \<not> CONFIG_MMU e then (- ENXIO, vma, h)
      else
        (let user_count = vma_pages e vma;
             count = drop_bit (PAGE_SHIFT e) (PAGE_ALIGN e sz);
             pfn = PHYS_PFN e (dma_to_phys e dev dma_addr);
             vma = vma\<lparr>vm_page_prot := dma_pgprot e dev (vm_page_prot vma) attrs\<rparr>
         in case dma_mmap_from_dev_coherent e h dev vma cpu_addr sz of
              Some ret \<Rightarrow> (ret, vma, h @ [Dma_mmap_from_dev_coherent cpu_addr sz])
            | None \<Rightarrow>
                (let h = h @ [Dma_mmap_from_dev_coherent cpu_addr sz] in
                 if vm_pgoff vma \<ge> count \<or> user_count > count - vm_pgoff vma
                 then (- ENXIO, vma, h)
                 else (remap_pfn_range e h vma (vm_start vma) (pfn + vm_pgoff vma)
                         (push_bit (PAGE_SHIFT e) user_count) (vm_page_prot vma),
                       vma,
                       h @ [Remap_pfn_range (vm_start vma) (pfn + vm_pgoff vma)
                              (push_bit (PAGE_SHIFT e) user_count) (vm_page_prot vma)]))))"

text \<open>
  The requested user range, \<open>vm_pgoff\<close> pages into the buffer and \<open>vma_pages\<close> long, lies
  within the page count of the allocation, \<open>PAGE_ALIGN(size) >> PAGE_SHIFT\<close>.
\<close>

fun is_remap_pfn_range :: "call \<Rightarrow> bool" where
  "is_remap_pfn_range (Remap_pfn_range addr pfn sz prot) = True"
| "is_remap_pfn_range c = False"

definition user_range_within :: "env \<Rightarrow> vm_area_struct \<Rightarrow> u64 \<Rightarrow> bool" where
  "user_range_within e vma sz =
     (unat (vm_pgoff vma) + unat (vma_pages e vma)
        \<le> unat (drop_bit (PAGE_SHIFT e) (PAGE_ALIGN e sz)))"

definition example_vma :: "u64 \<Rightarrow> u64 \<Rightarrow> vm_area_struct" where
  "example_vma pgoff len =
     \<lparr> vm_start = 0x7F0000000000, vm_end = 0x7F0000000000 + len, vm_pgoff = pgoff,
       vm_page_prot = 0 \<rparr>"

lemma range_check:
  "\<not> (pgoff \<ge> count \<or> user_count > count - pgoff) \<Longrightarrow>
   unat pgoff + unat user_count \<le> unat (count :: u64)"
  by (auto simp: not_le not_less word_le_nat_alt word_less_nat_alt unat_sub_if'
        split: if_splits)

lemma range_check_exceeds:
  "unat pgoff + unat user_count > unat (count :: u64) \<Longrightarrow>
   pgoff \<ge> count \<or> user_count > count - pgoff"
  using range_check [of count pgoff user_count] by auto

text \<open>
  C8. \<open>dma_direct_mmap\<close> calls \<open>remap_pfn_range\<close> only when the requested user range
  lies within the page count of the allocation. When the per-device coherent pool does not
  take the request, the result is 0 only for a range within the allocation, and a range
  that exceeds it gets \<open>-ENXIO\<close> without any page-table entry written.
\<close>

theorem mmap_range_checked:
  assumes "dma_direct_mmap e dev vma cpu_addr dma_addr sz attrs h = (ret, vma', h')"
  shows "(list_ex is_remap_pfn_range (drop (length h) h') \<longrightarrow> user_range_within e vma sz) \<and>
    (dma_mmap_from_dev_coherent e h dev
        (vma\<lparr>vm_page_prot := dma_pgprot e dev (vm_page_prot vma) attrs\<rparr>) cpu_addr sz = None \<longrightarrow>
       (ret = 0 \<longrightarrow> user_range_within e vma sz \<and> list_ex is_remap_pfn_range (drop (length h) h')) \<and>
       (\<not> user_range_within e vma sz \<longrightarrow>
          ret = - ENXIO \<and> \<not> list_ex is_remap_pfn_range (drop (length h) h')))"
  using assms
    range_check [of "drop_bit (PAGE_SHIFT e) (PAGE_ALIGN e sz)" "vm_pgoff vma" "vma_pages e vma"]
  apply (auto simp: dma_direct_mmap_def Let_def user_range_within_def ENXIO_def
        split: option.splits if_splits)
  done


theorem mmap_range_checked_witness:
  "dma_direct_mmap example_env (example_dev 0xFFFFFFFF 0) (example_vma 1 0x2000) 0 0x80000000
      0x3000 0 [] =
     (0, example_vma 1 0x2000,
      [Dma_mmap_from_dev_coherent 0 0x3000, Remap_pfn_range 0x7F0000000000 0x80001 0x2000 0]) \<and>
   user_range_within example_env (example_vma 1 0x2000) 0x3000 \<and>
   dma_direct_mmap example_env (example_dev 0xFFFFFFFF 0) (example_vma 2 0x2000) 0 0x80000000
      0x3000 0 [] =
     (- ENXIO, example_vma 2 0x2000, [Dma_mmap_from_dev_coherent 0 0x3000]) \<and>
   \<not> user_range_within example_env (example_vma 2 0x2000) 0x3000"
proof -
  have a: "dma_direct_mmap example_env (example_dev 0xFFFFFFFF 0) (example_vma 1 0x2000) 0 0x80000000
      0x3000 0 [] =
     (0, example_vma 1 0x2000,
      [Dma_mmap_from_dev_coherent 0 0x3000, Remap_pfn_range 0x7F0000000000 0x80001 0x2000 0])"
    by (simp add: dma_direct_mmap_def example_env_def example_vma_def Let_def
          word_le_nat_alt word_less_nat_alt)
  have b: "dma_direct_mmap example_env (example_dev 0xFFFFFFFF 0) (example_vma 2 0x2000) 0 0x80000000
      0x3000 0 [] =
     (- ENXIO, example_vma 2 0x2000, [Dma_mmap_from_dev_coherent 0 0x3000])"
    by (simp add: dma_direct_mmap_def example_env_def example_vma_def Let_def
          word_le_nat_alt word_less_nat_alt)
  have n: "dma_mmap_from_dev_coherent example_env [] (example_dev 0xFFFFFFFF 0) v 0 0x3000 = None"
    for v
    by (simp add: example_env_def)
  have w: "\<not> user_range_within example_env (example_vma 2 0x2000) 0x3000"
    by (simp add: user_range_within_def example_env_def example_vma_def)
  from mmap_range_checked [OF a] mmap_range_checked [OF b] a b n w show ?thesis
    by (simp add: ENXIO_def)
qed


end
